theory Spec2Isabelle
  imports Complex_Main
begin

section \<open>The particle filter of THUNDER: data model\<close>

text \<open>
  The development follows \<^verbatim>\<open>src/include/Particle.h\<close>. The header holds the class
  \<^verbatim>\<open>Particle\<close> with its private members, the body of \<^verbatim>\<open>defaultInit\<close>, the
  tuning macros and the declarations of every other member function; the bodies of those
  other functions are not part of the header.

  Conventions of the embedding:
  \<^item> a C++ \<^verbatim>\<open>double\<close> is a \<^typ>\<open>real\<close>; every constant that \<^verbatim>\<open>defaultInit\<close> stores
    (0, 1 and \<^verbatim>\<open>DBL_MAX\<close>) is a binary64 value, so nothing is rounded there;
  \<^item> \<^verbatim>\<open>int\<close> is \<^typ>\<open>int\<close> and \<^verbatim>\<open>size_t\<close> is \<^typ>\<open>nat\<close> (only the value 0 is stored);
  \<^item> \<^verbatim>\<open>dvec2\<close> and \<^verbatim>\<open>dvec4\<close> are tuples of reals, \<^verbatim>\<open>dvec\<close> and \<^verbatim>\<open>uvec\<close> are lists,
    \<^verbatim>\<open>dmat2\<close> and \<^verbatim>\<open>dmat4\<close> are lists of rows;
  \<^item> a pointer \<^verbatim>\<open>const Symmetry*\<close> is an option, \<^verbatim>\<open>NULL\<close> being \<^const>\<open>None\<close>;
  \<^item> a private member \<^verbatim>\<open>_x\<close> is the record field \<open>m_x\<close>, since an Isabelle name
    cannot start with an underscore.
\<close>

subsection \<open>Macros of the header\<close>

definition PEAK_FACTOR_MAX :: real where
  "PEAK_FACTOR_MAX = 5 / 10"

definition PEAK_FACTOR_MIN :: real where
  "PEAK_FACTOR_MIN = 1 / 1000"

definition PEAK_FACTOR_C :: real where
  "PEAK_FACTOR_C = 1 - 1 / 100"

definition PEAK_FACTOR_BASE :: real where
  "PEAK_FACTOR_BASE = 2"

definition INIT_OUTSIDE_CONFIDENCE_AREA :: real where
  "INIT_OUTSIDE_CONFIDENCE_AREA = 5 / 10"

definition RHO_MAX :: real where
  "RHO_MAX = 1 - 1 / 10"

definition RHO_MIN :: real where
  "RHO_MIN = - 1 + 1 / 10"

definition PERTURB_K_MAX :: real where
  "PERTURB_K_MAX = 1"

text \<open>
  \<^verbatim>\<open>DBL_MAX\<close> comes from the C library (\<^verbatim>\<open>cfloat\<close>): the largest finite binary64
  number, \<open>(2 - 2\<^sup>-\<^sup>5\<^sup>2) \<sqdot> 2\<^sup>1\<^sup>0\<^sup>2\<^sup>3\<close>.
\<close>

definition DBL_MAX :: real where
  "DBL_MAX = (2 ^ 53 - 1) * 2 ^ 971"

subsection \<open>Types\<close>

datatype ParticleType = PAR_C | PAR_R | PAR_T | PAR_D

type_synonym dvec2 = "real \<times> real"

type_synonym dvec4 = "real \<times> real \<times> real \<times> real"

text \<open>
  \<^verbatim>\<open>Symmetry\<close> is declared in \<^verbatim>\<open>Symmetry.h\<close>, which the header only includes; the filter
  holds a pointer to it and never looks inside in the code modelled here.
\<close>

typedecl Symmetry

record Particle =
  m_mode :: int
  m_nC :: int
  m_nR :: int
  m_nT :: int
  m_nD :: int
  m_transS :: real
  m_transQ :: real
  m_peakFactorC :: real
  m_peakFactorR :: real
  m_peakFactorT :: real
  m_peakFactorD :: real
  m_c :: "nat list"
  m_r :: "dvec4 list"
  m_t :: "dvec2 list"
  m_d :: "real list"
  m_wC :: "real list"
  m_wR :: "real list"
  m_wT :: "real list"
  m_wD :: "real list"
  m_uC :: "real list"
  m_uR :: "real list"
  m_uT :: "real list"
  m_uD :: "real list"
  m_sym :: "Symmetry option"
  m_k1 :: real
  m_k2 :: real
  m_k3 :: real
  m_s0 :: real
  m_s1 :: real
  m_rho :: real
  m_s :: real
  m_score :: real
  m_topCPrev :: nat
  m_topC :: nat
  m_topRPrev :: dvec4
  m_topR :: dvec4
  m_topTPrev :: dvec2
  m_topT :: dvec2
  m_topDPrev :: real
  m_topD :: real

section \<open>Default initialisation\<close>

text \<open>
  \<^verbatim>\<open>Particle::defaultInit\<close> (lines 249 to 279) assigns eighteen members of the object it
  is called on and leaves every other member as it was. The object before the call is the
  argument \<open>p\<close>; the members the function does not assign (the sample counts of the
  rotation, translation and defocus axes, the ensembles, the peak factors, the score) keep
  whatever \<open>p\<close> holds. The macro \<^verbatim>\<open>MODE_3D\<close> is defined in a header that is only included
  (\<^verbatim>\<open>Macro.h\<close>); its integer value is the parameter \<open>MODE_3D\<close>.
\<close>

definition defaultInit :: "int \<Rightarrow> Particle \<Rightarrow> Particle" where
  "defaultInit MODE_3D p =
     p\<lparr> m_mode := MODE_3D,
        m_nC := 1,
        m_sym := None,
        m_k1 := 1,
        m_k2 := 1,
        m_k3 := 1,
        m_s0 := DBL_MAX,
        m_s1 := DBL_MAX,
        m_rho := 0,
        m_s := 0,
        m_topCPrev := 0,
        m_topC := 0,
        m_topRPrev := (1, 0, 0, 0),
        m_topR := (1, 0, 0, 0),
        m_topTPrev := (0, 0),
        m_topT := (0, 0),
        m_topDPrev := 1,
        m_topD := 1 \<rparr>"

section \<open>Resampling\<close>

text \<open>
  The header declares \<^verbatim>\<open>void resample(const int n, const ParticleType pt)\<close> (lines 844
  and 845) without a body. The functions of this section follow the description of the
  resampler in the specification (section 4.2): \<open>n\<close> samples are drawn with replacement
  from the current weights by \<open>n\<close> evenly spaced offsets into the cumulative weight curve,
  all shifted by one shared random jitter; the result has \<open>n\<close> samples of weight \<open>1/n\<close>; the
  operation fails on \<open>n = 0\<close> and on an empty ensemble. The random draw is the explicit
  argument \<open>jitter\<close>.
\<close>

datatype error = ZeroSamples | EmptyEnsemble | OffCurve

text \<open>
  Modelled from the spec: the body of \<^verbatim>\<open>Particle::resample\<close> is missing; this is the
  "cumulative weight curve" of section 4.2, the running sums of the weights, started at
  \<open>acc\<close>.
\<close>

fun cumsum :: "real \<Rightarrow> real list \<Rightarrow> real list" where
  "cumsum acc [] = []"
| "cumsum acc (w # ws) = (acc + w) # cumsum (acc + w) ws"

text \<open>
  Modelled from the spec: the body of \<^verbatim>\<open>Particle::resample\<close> is missing; an offset "into
  the cumulative weight curve" selects the first sample whose cumulative weight lies above
  the offset. No sample is selected by an offset at or beyond the end of the curve.
\<close>

fun locate :: "real \<Rightarrow> real list \<Rightarrow> nat option" where
  "locate x [] = None"
| "locate x (c # cs) = (if x < c then Some 0 else map_option Suc (locate x cs))"

text \<open>
  Modelled from the spec: the body of \<^verbatim>\<open>Particle::resample\<close> is missing; these are the
  "n evenly spaced offsets ... plus one shared random jitter" of section 4.2: the spacing is
  \<open>1/n\<close>, and the same \<open>jitter\<close> is added to each.
\<close>

definition offsets :: "real \<Rightarrow> nat \<Rightarrow> real list" where
  "offsets jitter n = map (\<lambda>k. jitter + real k / real n) [0..<n]"

text \<open>
  Modelled from the spec: the body of \<^verbatim>\<open>Particle::resample\<close> is missing; one value of
  the ensemble is copied for each offset ("selects among existing" values). An offset that
  selects no sample, or a sample index with no stored value, ends the draw with
  \<^const>\<open>OffCurve\<close>: the specification is silent there, it describes normalized weights only.
\<close>

fun draw :: "'a list \<Rightarrow> real list \<Rightarrow> real list \<Rightarrow> error + 'a list" where
  "draw vs cdf [] = Inr []"
| "draw vs cdf (x # xs) =
     (case locate x cdf of
        None \<Rightarrow> Inl OffCurve
      | Some i \<Rightarrow>
          if i < length vs
          then (case draw vs cdf xs of Inl e \<Rightarrow> Inl e | Inr out \<Rightarrow> Inr (vs ! i # out))
          else Inl OffCurve)"

text \<open>
  Modelled from the spec: the body of \<^verbatim>\<open>Particle::resample\<close> is missing; resampling of
  one axis ensemble, given as its values \<open>vs\<close> and its weights \<open>ws\<close>. "Fails on n = 0 or an
  empty source ensemble"; \<open>n\<close> is a C++ \<^verbatim>\<open>int\<close>, and a negative \<open>n\<close> is refused with
  \<open>n = 0\<close>. Every new weight is \<open>1/n\<close>.
\<close>

definition resampleAxis ::
  "real \<Rightarrow> int \<Rightarrow> 'a list \<Rightarrow> real list \<Rightarrow> error + ('a list \<times> real list)" where
  "resampleAxis jitter n vs ws =
     (if n \<le> 0 then Inl ZeroSamples
      else if vs = [] then Inl EmptyEnsemble
      else case draw vs (cumsum 0 ws) (offsets jitter (nat n)) of
             Inl e \<Rightarrow> Inl e
           | Inr out \<Rightarrow> Inr (out, replicate (nat n) (1 / real_of_int n)))"

text \<open>
  Modelled from the spec: the body of \<^verbatim>\<open>Particle::resample\<close> is missing; \<open>resample(axis,
  n)\<close> on the object. The axis \<open>pt\<close> selects the members that form the ensemble: the values
  \<open>_c\<close>, \<open>_r\<close>, \<open>_t\<close> or \<open>_d\<close>, the weights \<open>_wC\<close>, \<open>_wR\<close>, \<open>_wT\<close> or \<open>_wD\<close>, and the
  count \<open>_nC\<close>, \<open>_nR\<close>, \<open>_nT\<close> or \<open>_nD\<close>. The specification does not say what becomes of
  the auxiliary weights, so that member is left as it is and nothing below reads it.
\<close>

definition resample :: "real \<Rightarrow> int \<Rightarrow> ParticleType \<Rightarrow> Particle \<Rightarrow> error + Particle" where
  "resample jitter n pt p =
     (case pt of
        PAR_C \<Rightarrow>
          (case resampleAxis jitter n (m_c p) (m_wC p) of
             Inl e \<Rightarrow> Inl e
           | Inr (vs, ws) \<Rightarrow> Inr (p\<lparr> m_nC := n, m_c := vs, m_wC := ws \<rparr>))
      | PAR_R \<Rightarrow>
          (case resampleAxis jitter n (m_r p) (m_wR p) of
             Inl e \<Rightarrow> Inl e
           | Inr (vs, ws) \<Rightarrow> Inr (p\<lparr> m_nR := n, m_r := vs, m_wR := ws \<rparr>))
      | PAR_T \<Rightarrow>
          (case resampleAxis jitter n (m_t p) (m_wT p) of
             Inl e \<Rightarrow> Inl e
           | Inr (vs, ws) \<Rightarrow> Inr (p\<lparr> m_nT := n, m_t := vs, m_wT := ws \<rparr>))
      | PAR_D \<Rightarrow>
          (case resampleAxis jitter n (m_d p) (m_wD p) of
             Inl e \<Rightarrow> Inl e
           | Inr (vs, ws) \<Rightarrow> Inr (p\<lparr> m_nD := n, m_d := vs, m_wD := ws \<rparr>)))"

subsection \<open>Views of one axis\<close>

text \<open>
  The count of an axis as the accessors \<^verbatim>\<open>nC()\<close>, \<^verbatim>\<open>nR()\<close>, \<^verbatim>\<open>nT()\<close> and \<^verbatim>\<open>nD()\<close>
  report it, its weights, the number of values it stores, and the statement that the values
  of one object on an axis all occur among the values of another object on that axis.
\<close>

fun nAxis :: "ParticleType \<Rightarrow> Particle \<Rightarrow> int" where
  "nAxis PAR_C p = m_nC p"
| "nAxis PAR_R p = m_nR p"
| "nAxis PAR_T p = m_nT p"
| "nAxis PAR_D p = m_nD p"

fun wAxis :: "ParticleType \<Rightarrow> Particle \<Rightarrow> real list" where
  "wAxis PAR_C p = m_wC p"
| "wAxis PAR_R p = m_wR p"
| "wAxis PAR_T p = m_wT p"
| "wAxis PAR_D p = m_wD p"

fun sizeAxis :: "ParticleType \<Rightarrow> Particle \<Rightarrow> nat" where
  "sizeAxis PAR_C p = length (m_c p)"
| "sizeAxis PAR_R p = length (m_r p)"
| "sizeAxis PAR_T p = length (m_t p)"
| "sizeAxis PAR_D p = length (m_d p)"

fun valuesWithin :: "ParticleType \<Rightarrow> Particle \<Rightarrow> Particle \<Rightarrow> bool" where
  "valuesWithin PAR_C q p = (set (m_c q) \<subseteq> set (m_c p))"
| "valuesWithin PAR_R q p = (set (m_r q) \<subseteq> set (m_r p))"
| "valuesWithin PAR_T q p = (set (m_t q) \<subseteq> set (m_t p))"
| "valuesWithin PAR_D q p = (set (m_d q) \<subseteq> set (m_d p))"

subsection \<open>Unit rotations\<close>

text \<open>
  A rotation sample is a row of \<open>_r\<close>: a unit quaternion in volumetric mode, a unit
  direction padded with two zeros in planar mode. In both modes it has unit norm exactly
  when the sum of the squares of its four components is 1.
\<close>

fun norm4sq :: "dvec4 \<Rightarrow> real" where
  "norm4sq (a, b, c, d) = a * a + b * b + c * c + d * d"

subsection \<open>A small filter\<close>

text \<open>
  One class, two rotations, three translations and one defocus factor, each axis with
  normalized weights; the second translation carries no weight.
\<close>

definition smallFilter :: Particle where
  "smallFilter =
     \<lparr> m_mode = 1, m_nC = 1, m_nR = 2, m_nT = 3, m_nD = 1,
       m_transS = 2, m_transQ = 1 / 100,
       m_peakFactorC = 1 / 2, m_peakFactorR = 1 / 2, m_peakFactorT = 1 / 2,
       m_peakFactorD = 1 / 2,
       m_c = [0],
       m_r = [(1, 0, 0, 0), (0, 1, 0, 0)],
       m_t = [(0, 0), (1, 2), (3, - 1)],
       m_d = [1],
       m_wC = [1], m_wR = [1 / 4, 3 / 4], m_wT = [1 / 2, 0, 1 / 2], m_wD = [1],
       m_uC = [1], m_uR = [1, 1], m_uT = [1, 1, 1], m_uD = [1],
       m_sym = None,
       m_k1 = 1, m_k2 = 1, m_k3 = 1,
       m_s0 = 2, m_s1 = 2, m_rho = 0, m_s = 0, m_score = 0,
       m_topCPrev = 0, m_topC = 0,
       m_topRPrev = (1, 0, 0, 0), m_topR = (1, 0, 0, 0),
       m_topTPrev = (0, 0), m_topT = (0, 0),
       m_topDPrev = 1, m_topD = 1 \<rparr>"

section \<open>Properties of the default initialisation\<close>

lemma DBL_MAX_positive: "0 < DBL_MAX"
  by (simp add: DBL_MAX_def)

lemma PEAK_FACTOR_bounds_ordered:
  "0 < PEAK_FACTOR_MIN \<and> PEAK_FACTOR_MIN < PEAK_FACTOR_MAX \<and> PEAK_FACTOR_MAX < 1"
  by (simp add: PEAK_FACTOR_MIN_def PEAK_FACTOR_MAX_def)

lemma RHO_interval_inside_unit:
  "- 1 < RHO_MIN \<and> RHO_MIN < RHO_MAX \<and> RHO_MAX < 1 \<and> RHO_MIN = - RHO_MAX"
  by (simp add: RHO_MIN_def RHO_MAX_def)

text \<open>
  The members outside the body of \<^verbatim>\<open>defaultInit\<close> are not touched: the sample counts
  of the three continuous axes, the four ensembles with their weights, and the spread
  settings are those of the object before the call.
\<close>

lemma defaultInit_frame:
  "m_nR (defaultInit MODE_3D p) = m_nR p \<and>
   m_nT (defaultInit MODE_3D p) = m_nT p \<and>
   m_nD (defaultInit MODE_3D p) = m_nD p \<and>
   m_c (defaultInit MODE_3D p) = m_c p \<and>
   m_r (defaultInit MODE_3D p) = m_r p \<and>
   m_t (defaultInit MODE_3D p) = m_t p \<and>
   m_d (defaultInit MODE_3D p) = m_d p \<and>
   m_wC (defaultInit MODE_3D p) = m_wC p \<and>
   m_wR (defaultInit MODE_3D p) = m_wR p \<and>
   m_wT (defaultInit MODE_3D p) = m_wT p \<and>
   m_wD (defaultInit MODE_3D p) = m_wD p \<and>
   m_transS (defaultInit MODE_3D p) = m_transS p \<and>
   m_transQ (defaultInit MODE_3D p) = m_transQ p"
  by (simp add: defaultInit_def)

lemma defaultInit_spreads:
  "m_s0 (defaultInit MODE_3D p) = DBL_MAX \<and>
   m_s1 (defaultInit MODE_3D p) = DBL_MAX \<and>
   m_s (defaultInit MODE_3D p) = 0"
  by (simp add: defaultInit_def)

text \<open>
  Claim C10. Whatever the object held before, after \<^verbatim>\<open>defaultInit\<close> it is in volumetric
  mode (\<^verbatim>\<open>MODE_3D\<close>), has exactly one class, holds no Symmetry reference, has its three
  rotation concentration parameters equal to 1 and its translation correlation equal to 0,
  and both the current and the previous rank-1 snapshot are neutral: class 0, the identity
  quaternion \<open>(1, 0, 0, 0)\<close>, the origin \<open>(0, 0)\<close> and defocus factor 1.
\<close>

theorem defaultInit_state:
  "m_mode (defaultInit MODE_3D p) = MODE_3D \<and>
   m_nC (defaultInit MODE_3D p) = 1 \<and>
   m_sym (defaultInit MODE_3D p) = None \<and>
   m_k1 (defaultInit MODE_3D p) = 1 \<and>
   m_k2 (defaultInit MODE_3D p) = 1 \<and>
   m_k3 (defaultInit MODE_3D p) = 1 \<and>
   m_rho (defaultInit MODE_3D p) = 0 \<and>
   m_topC (defaultInit MODE_3D p) = 0 \<and>
   m_topCPrev (defaultInit MODE_3D p) = 0 \<and>
   m_topR (defaultInit MODE_3D p) = (1, 0, 0, 0) \<and>
   m_topRPrev (defaultInit MODE_3D p) = (1, 0, 0, 0) \<and>
   m_topT (defaultInit MODE_3D p) = (0, 0) \<and>
   m_topTPrev (defaultInit MODE_3D p) = (0, 0) \<and>
   m_topD (defaultInit MODE_3D p) = 1 \<and>
   m_topDPrev (defaultInit MODE_3D p) = 1"
  by (simp add: defaultInit_def)

section \<open>Properties of resampling\<close>

lemma length_cumsum: "length (cumsum acc ws) = length ws"
  by (induction ws arbitrary: acc) auto

lemma cumsum_Nil_iff: "cumsum acc ws = [] \<longleftrightarrow> ws = []"
  by (cases ws) simp_all

text \<open>The curve ends at the starting value plus the total weight.\<close>

lemma last_cumsum: "ws \<noteq> [] \<Longrightarrow> last (cumsum acc ws) = acc + sum_list ws"
proof (induction ws arbitrary: acc)
  case Nil
  then show ?case by simp
next
  case (Cons w ws)
  show ?case
  proof (cases "ws = []")
    case True
    then show ?thesis by simp
  next
    case False
    with Cons.IH[of "acc + w"] show ?thesis
      by (simp add: cumsum_Nil_iff add.assoc)
  qed
qed

text \<open>An offset below the end of the curve selects a sample of the ensemble.\<close>

lemma locate_below_last:
  "cdf \<noteq> [] \<Longrightarrow> x < last cdf \<Longrightarrow> \<exists>i. locate x cdf = Some i \<and> i < length cdf"
  by (induction cdf) (auto split: if_splits)

lemma draw_ok:
  assumes "cdf \<noteq> []" "length cdf = length vs" "\<forall>x\<in>set xs. x < last cdf"
  shows "\<exists>out. draw vs cdf xs = Inr out \<and> length out = length xs \<and> set out \<subseteq> set vs"
  using assms(3)
proof (induction xs)
  case Nil
  then show ?case by simp
next
  case (Cons x xs)
  then obtain out where
    out: "draw vs cdf xs = Inr out" "length out = length xs" "set out \<subseteq> set vs"
    by auto
  from Cons.prems have "x < last cdf" by simp
  with assms(1) obtain i where i: "locate x cdf = Some i" "i < length cdf"
    using locate_below_last by blast
  with assms(2) have "i < length vs" by simp
  with i out show ?case by simp
qed

text \<open>With a jitter of less than one spacing, every offset stays below 1.\<close>

lemma offsets_below_one:
  assumes "0 < n" "jitter < 1 / real n" "x \<in> set (offsets jitter n)"
  shows "x < 1"
proof -
  from assms(3) obtain k where k: "k < n" "x = jitter + real k / real n"
    by (auto simp: offsets_def)
  have "real k / real n \<le> (real n - 1) / real n"
    using k(1) assms(1) by (simp add: divide_right_mono)
  moreover have "1 / real n + (real n - 1) / real n = 1"
    using assms(1) by (simp add: field_simps)
  ultimately show ?thesis using k(2) assms(2) by linarith
qed

lemma resampleAxis_ok:
  assumes "1 \<le> n" "vs \<noteq> []" "length ws = length vs" "sum_list ws = 1"
    "jitter < 1 / real_of_int n"
  shows "\<exists>out. resampleAxis jitter n vs ws = Inr (out, replicate (nat n) (1 / real_of_int n))
           \<and> length out = nat n \<and> set out \<subseteq> set vs"
proof -
  let ?cdf = "cumsum 0 ws"
  from assms(2,3) have ws: "ws \<noteq> []" by auto
  then have ne: "?cdf \<noteq> []" by (simp add: cumsum_Nil_iff)
  have len: "length ?cdf = length vs" by (simp add: length_cumsum assms(3))
  have lst: "last ?cdf = 1" using last_cumsum[OF ws, of 0] assms(4) by simp
  have n: "0 < nat n" "real (nat n) = real_of_int n" using assms(1) by auto
  have "\<forall>x\<in>set (offsets jitter (nat n)). x < last ?cdf"
    using offsets_below_one[OF n(1)] assms(5) n(2) lst by auto
  from draw_ok[OF ne len this] obtain out where
    "draw vs ?cdf (offsets jitter (nat n)) = Inr out"
    "length out = length (offsets jitter (nat n))"
    "set out \<subseteq> set vs" by blast
  then show ?thesis using assms(1,2) by (simp add: resampleAxis_def offsets_def)
qed

text \<open>
  Claim C1. On every axis \<open>pt\<close> whose ensemble is not empty and whose weights, one for each
  value, sum to 1, and for every \<open>n \<ge> 1\<close>, resampling succeeds (for every jitter below one
  spacing \<open>1/n\<close>): the axis then counts \<open>n\<close> samples and stores \<open>n\<close> values, its weights are
  \<open>n\<close> times \<open>1/n\<close>, and each of its values is one of the values the axis held before, so no
  value is made up and no rotation is interpolated.
\<close>

theorem resample_equal_weight_closed:
  assumes "1 \<le> n"
    and "jitter < 1 / real_of_int n"
    and "sizeAxis pt p \<noteq> 0"
    and "length (wAxis pt p) = sizeAxis pt p"
    and "sum_list (wAxis pt p) = 1"
  shows "\<exists>q. resample jitter n pt p = Inr q
           \<and> nAxis pt q = n
           \<and> sizeAxis pt q = nat n
           \<and> wAxis pt q = replicate (nat n) (1 / real_of_int n)
           \<and> valuesWithin pt q p"
proof (cases pt)
  case PAR_C
  with assms have "m_c p \<noteq> []" "length (m_wC p) = length (m_c p)" "sum_list (m_wC p) = 1"
    by auto
  from resampleAxis_ok[OF assms(1) this assms(2)] PAR_C show ?thesis
    by (auto simp: resample_def)
next
  case PAR_R
  with assms have "m_r p \<noteq> []" "length (m_wR p) = length (m_r p)" "sum_list (m_wR p) = 1"
    by auto
  from resampleAxis_ok[OF assms(1) this assms(2)] PAR_R show ?thesis
    by (auto simp: resample_def)
next
  case PAR_T
  with assms have "m_t p \<noteq> []" "length (m_wT p) = length (m_t p)" "sum_list (m_wT p) = 1"
    by auto
  from resampleAxis_ok[OF assms(1) this assms(2)] PAR_T show ?thesis
    by (auto simp: resample_def)
next
  case PAR_D
  with assms have "m_d p \<noteq> []" "length (m_wD p) = length (m_d p)" "sum_list (m_wD p) = 1"
    by auto
  from resampleAxis_ok[OF assms(1) this assms(2)] PAR_D show ?thesis
    by (auto simp: resample_def)
qed

text \<open>
  The hypotheses hold on the translation axis of \<^const>\<open>smallFilter\<close> for four samples
  and a jitter of \<open>1/8\<close>.
\<close>

theorem resample_equal_weight_closed_witness:
  "(1::int) \<le> 4 \<and> (1 / 8 :: real) < 1 / real_of_int 4
   \<and> sizeAxis PAR_T smallFilter \<noteq> 0
   \<and> length (wAxis PAR_T smallFilter) = sizeAxis PAR_T smallFilter
   \<and> sum_list (wAxis PAR_T smallFilter) = 1
   \<and> (\<exists>q. resample (1 / 8) 4 PAR_T smallFilter = Inr q
           \<and> nAxis PAR_T q = 4
           \<and> sizeAxis PAR_T q = nat 4
           \<and> wAxis PAR_T q = replicate (nat 4) (1 / real_of_int 4)
           \<and> valuesWithin PAR_T q smallFilter)"
proof -
  have h1: "(1::int) \<le> 4" by simp
  have h2: "(1 / 8 :: real) < 1 / real_of_int 4" by simp
  have h3: "sizeAxis PAR_T smallFilter \<noteq> 0" by (simp add: smallFilter_def)
  have h4: "length (wAxis PAR_T smallFilter) = sizeAxis PAR_T smallFilter"
    by (simp add: smallFilter_def)
  have h5: "sum_list (wAxis PAR_T smallFilter) = 1" by (simp add: smallFilter_def)
  from resample_equal_weight_closed[OF h1 h2 h3 h4 h5] h1 h2 h3 h4 h5 show ?thesis
    by blast
qed

subsection \<open>Rotations under resampling\<close>

text \<open>
  A draw only copies values, whatever the weights and the jitter are.
\<close>

lemma draw_subset: "draw vs cdf xs = Inr out \<Longrightarrow> set out \<subseteq> set vs"
  by (induction xs arbitrary: out) (auto split: option.splits if_splits sum.splits)

lemma resampleAxis_subset:
  "resampleAxis jitter n vs ws = Inr (out, ws') \<Longrightarrow> set out \<subseteq> set vs"
  by (auto simp: resampleAxis_def split: if_splits sum.splits dest: draw_subset)

text \<open>
  If every rotation sample has unit norm, then so has every rotation sample after a
  resampling of any axis that succeeds: the rotation axis is filled with copies, and the
  other axes do not touch the rotations. This is exact, with no tolerance. It says nothing
  about \<^verbatim>\<open>perturb\<close> and \<^verbatim>\<open>symmetrise\<close>, which the header declares without a body and
  which are not modelled here.
\<close>

lemma resample_keeps_unit_rotations:
  assumes "resample jitter n pt p = Inr q" and "\<forall>r\<in>set (m_r p). norm4sq r = 1"
  shows "\<forall>r\<in>set (m_r q). norm4sq r = 1"
proof (cases pt)
  case PAR_R
  with assms(1) obtain vs ws where
    "resampleAxis jitter n (m_r p) (m_wR p) = Inr (vs, ws)" "m_r q = vs"
    by (auto simp: resample_def split: sum.splits)
  with resampleAxis_subset[of jitter n "m_r p" "m_wR p" vs ws] assms(2) show ?thesis
    by auto
next
  case PAR_C
  with assms show ?thesis by (auto simp: resample_def split: sum.splits)
next
  case PAR_T
  with assms show ?thesis by (auto simp: resample_def split: sum.splits)
next
  case PAR_D
  with assms show ?thesis by (auto simp: resample_def split: sum.splits)
qed

end
